theory Spec2Isabelle
  imports Main
begin

text \<open>
  A model of app.py, the Streamlit script of the Equity Research News Tool, and of the
  two-tier summary cache it drives. One rerun of the script is a function from the widget
  values, the clock and the program state to the elements shown and the new state; the
  news API, the LLM API and the framework are an environment the functions are given.
\<close>

section \<open>Python values used by app.py\<close>

text \<open>
  A Python \<open>str\<close> is a sequence of Unicode code points, so \<open>len\<close> is \<open>length\<close>,
  \<open>+\<close> is \<open>@\<close> and a slice \<open>s[:n]\<close> is \<open>take n s\<close>. ASCII literals are written
  through \<open>ascii\<close>; the em-dash of the source (U+2014) is the code point 8212.
\<close>

type_synonym pystr = "nat list"

definition ascii :: "string \<Rightarrow> pystr" where
  "ascii s = map of_char s"

definition em_dash :: pystr where
  "em_dash = [8212]"

text \<open>\<open>str(n)\<close> for a non-negative integer and for any integer.\<close>

function str_nat :: "nat \<Rightarrow> pystr" where
  "str_nat n = (if n < 10 then [48 + n] else str_nat (n div 10) @ [48 + n mod 10])"
  by pat_completeness auto
termination
  by (relation "measure id") auto

definition str_int :: "int \<Rightarrow> pystr" where
  "str_int i = (if i < 0 then ascii ''-'' @ str_nat (nat (- i)) else str_nat (nat i))"

text \<open>\<open>x or d\<close> on an optional string: \<open>None\<close> and the empty string are both falsy.\<close>

definition or_str :: "pystr option \<Rightarrow> pystr \<Rightarrow> pystr" where
  "or_str v d = (case v of None \<Rightarrow> d | Some s \<Rightarrow> if s = [] then d else s)"

text \<open>\<open>sep.join(parts)\<close>.\<close>

fun py_join :: "pystr \<Rightarrow> pystr list \<Rightarrow> pystr" where
  "py_join sep [] = []"
| "py_join sep [x] = x"
| "py_join sep (x # y # ys) = x @ sep @ py_join sep (y # ys)"

text \<open>The characters \<open>str.strip()\<close> removes when called without an argument.\<close>

definition py_isspace :: "nat \<Rightarrow> bool" where
  "py_isspace c =
     ((9 \<le> c \<and> c \<le> 13) \<or> (28 \<le> c \<and> c \<le> 32) \<or> c = 133 \<or> c = 160 \<or> c = 5760
      \<or> (8192 \<le> c \<and> c \<le> 8202) \<or> c = 8232 \<or> c = 8233 \<or> c = 8239 \<or> c = 8287
      \<or> c = 12288)"

definition py_strip :: "pystr \<Rightarrow> pystr" where
  "py_strip s = rev (dropWhile py_isspace (rev (dropWhile py_isspace s)))"

section \<open>Articles and the text built from them\<close>

text \<open>
  An article is the dict returned by the news API. \<open>a.get(k)\<close> is \<open>None\<close> both when
  the key is absent and when its value is null. The \<open>source\<close> entry is absent or null
  (\<open>NoSource\<close>), an empty dict (\<open>EmptySource\<close>, falsy) or a dict whose \<open>name\<close> may
  be absent.
\<close>

datatype source_field = NoSource | EmptySource | Source "pystr option"

record article =
  title :: "pystr option"
  description :: "pystr option"
  source :: source_field
  url :: "pystr option"

text \<open>
  app.py, lines 101-103:
  \<^verbatim>\<open>concat_text = "\n\n".join(
      [(a.get("title") or "") + " - " + (a.get("description") or "") for a in articles])\<close>
  where the dash of the source is an em-dash.
\<close>

definition concat_text :: "article list \<Rightarrow> pystr" where
  "concat_text articles =
     py_join [10, 10]
       (map (\<lambda>a. or_str (title a) [] @ ascii '' '' @ em_dash @ ascii '' '' @ or_str (description a) [])
          articles)"

text \<open>
  The listing of one fetched article, lines 91-97. \<open>src\<close> is the source's name when
  the source dict is truthy and the (falsy) source value itself otherwise; the f-string
  prints \<open>None\<close> as \<open>None\<close> and an empty dict as \<open>{}\<close>.
\<close>

definition src_text :: "article \<Rightarrow> pystr" where
  "src_text a =
     (case source a of
        NoSource \<Rightarrow> ascii ''None''
      | EmptySource \<Rightarrow> ascii ''{}''
      | Source None \<Rightarrow> ascii ''None''
      | Source (Some n) \<Rightarrow> n)"

definition article_line :: "article \<Rightarrow> pystr" where
  "article_line a =
     (let t = or_str (title a) (ascii ''<no title>'');
          u = or_str (url a) []
      in if u \<noteq> []
         then ascii ''- ['' @ t @ ascii '']('' @ u @ ascii '') '' @ em_dash @ ascii '' *'' @ src_text a @ ascii ''*''
         else ascii ''- '' @ t @ ascii '' '' @ em_dash @ ascii '' *'' @ src_text a @ ascii ''*'')"

section \<open>Errors, the environment and the program state\<close>

text \<open>
  The exceptions of the error taxonomy, each with the message \<open>str(e)\<close> prints, and
  any other \<open>Exception\<close>. All of them are caught by \<open>except Exception\<close>.
\<close>

datatype error =
  FetchError pystr
| SummarizationError pystr
| ConfigurationError pystr
| OtherException pystr

fun str_error :: "error \<Rightarrow> pystr" where
  "str_error (FetchError m) = m"
| "str_error (SummarizationError m) = m"
| "str_error (ConfigurationError m) = m"
| "str_error (OtherException m) = m"

text \<open>
  What the program does not control. The two upstream services answer the \<open>n\<close>-th call
  made to them (\<open>Inl\<close> a failure message), so two calls with the same arguments may be
  answered differently. \<open>estimate_tokens\<close> is imported from langchain_config, which is
  not among the sources; it is taken as a parameter that may raise.
  \<open>st_clear_raises\<close> says whether the framework's \<open>st.cache_data.clear()\<close> raises.
\<close>

record env =
  news_api :: "nat \<Rightarrow> pystr \<Rightarrow> int \<Rightarrow> pystr + article list"
  llm_api :: "nat \<Rightarrow> pystr \<Rightarrow> pystr + pystr"
  estimate_tokens :: "pystr \<Rightarrow> error + int"
  st_clear_raises :: bool

type_synonym key = "pystr \<times> int"

text \<open>
  The state a rerun of the script reads and writes: the entries of the
  \<open>st.cache_data\<close> cache of \<open>get_summary_cached_ui\<close> (each with the time, in seconds,
  at which it was stored), the entries of the module-level cache,
  \<open>st.session_state.history\<close> (\<open>None\<close> while the key is not in the session state), and
  the number of calls made so far to each upstream service.
\<close>

record state =
  outer_cache :: "key \<rightharpoonup> pystr \<times> nat"
  inner_cache :: "key \<rightharpoonup> pystr"
  history :: "(pystr \<times> pystr) list option"
  fetch_calls :: nat
  llm_calls :: nat

section \<open>The functions imported from langchain_config\<close>

text \<open>
  Modelled from the spec: \<open>get_news_articles\<close> of langchain_config, which is not among
  the sources. It is the Fetcher: one call to the news search API with the query and the
  maximum count, returning the articles or failing with a \<open>FetchError\<close> that carries
  the message; no retries.
\<close>

definition get_news_articles :: "env \<Rightarrow> pystr \<Rightarrow> int \<Rightarrow> state \<Rightarrow> (error + article list) \<times> state" where
  "get_news_articles env query max_articles s =
     (case news_api env (fetch_calls s) query max_articles of
        Inl msg \<Rightarrow> (Inl (FetchError msg), s\<lparr>fetch_calls := Suc (fetch_calls s)\<rparr>)
      | Inr articles \<Rightarrow> (Inr articles, s\<lparr>fetch_calls := Suc (fetch_calls s)\<rparr>))"

text \<open>
  Modelled from the spec: \<open>summarize_articles_llm\<close> of langchain_config, which is not
  among the sources. It is the LLM summarization call on the concatenated text, failing
  with a \<open>SummarizationError\<close>.
\<close>

definition summarize_articles_llm :: "env \<Rightarrow> pystr \<Rightarrow> state \<Rightarrow> (error + pystr) \<times> state" where
  "summarize_articles_llm env text s =
     (case llm_api env (llm_calls s) text of
        Inl msg \<Rightarrow> (Inl (SummarizationError msg), s\<lparr>llm_calls := Suc (llm_calls s)\<rparr>)
      | Inr summary \<Rightarrow> (Inr summary, s\<lparr>llm_calls := Suc (llm_calls s)\<rparr>))"

text \<open>
  Modelled from the spec: \<open>get_summary\<close> of langchain_config, which is not among the
  sources. The uncached computation: fetch the articles, concatenate title and
  description of each, pass the concatenation to the LLM call, return its text.
\<close>

definition get_summary :: "env \<Rightarrow> pystr \<Rightarrow> int \<Rightarrow> state \<Rightarrow> (error + pystr) \<times> state" where
  "get_summary env query max_articles s =
     (case get_news_articles env query max_articles s of
        (Inl e, s1) \<Rightarrow> (Inl e, s1)
      | (Inr articles, s1) \<Rightarrow> summarize_articles_llm env (concat_text articles) s1)"

text \<open>
  Modelled from the spec: \<open>get_summary_cached_module\<close> of langchain_config, which is
  not among the sources. The memoized wrapper around \<open>get_summary\<close>: the key is the
  exact pair of its arguments, an entry never expires, and a call that raises stores
  nothing.
\<close>

definition get_summary_cached_module :: "env \<Rightarrow> pystr \<Rightarrow> int \<Rightarrow> state \<Rightarrow> (error + pystr) \<times> state" where
  "get_summary_cached_module env query max_articles s =
     (case inner_cache s (query, max_articles) of
        Some summary \<Rightarrow> (Inr summary, s)
      | None \<Rightarrow>
          (case get_summary env query max_articles s of
             (Inl e, s1) \<Rightarrow> (Inl e, s1)
           | (Inr summary, s1) \<Rightarrow>
               (Inr summary, s1\<lparr>inner_cache := (inner_cache s1)((query, max_articles) \<mapsto> summary)\<rparr>)))"

text \<open>
  Modelled from the spec: \<open>clear_module_cache\<close> of langchain_config, which is not
  among the sources. The explicit action that empties the module-level cache.
\<close>

definition clear_module_cache :: "state \<Rightarrow> state" where
  "clear_module_cache s = s\<lparr>inner_cache := Map.empty\<rparr>"

section \<open>app.py\<close>

text \<open>
  What a rerun of the script shows, in the order of the calls: \<open>st.title\<close>,
  \<open>st.markdown\<close>, \<open>st.write\<close>, \<open>st.info\<close>, \<open>st.warning\<close>, \<open>st.error\<close>,
  \<open>st.success\<close> and \<open>st.download_button\<close> (label, data, file name). Spinners and
  the log records of \<open>logger.exception\<close> are not part of it.
\<close>

datatype element =
  StTitle pystr
| StMarkdown pystr
| StWrite pystr
| StInfo pystr
| StWarning pystr
| StError pystr
| StSuccess pystr
| StDownloadButton pystr pystr pystr

subsection \<open>The outer cache tier\<close>

text \<open>Line 54: \<^verbatim>\<open>@st.cache_data(ttl=60 * 60 * 24)\<close>, in seconds.\<close>

definition ttl :: nat where
  "ttl = 60 * 60 * 24"

text \<open>
  A lookup in the \<open>st.cache_data\<close> cache at time \<open>now\<close>: an entry is served while it
  is younger than \<open>ttl\<close>; an older entry is a miss.
\<close>

definition outer_lookup :: "state \<Rightarrow> nat \<Rightarrow> key \<Rightarrow> pystr option" where
  "outer_lookup s now k =
     (case outer_cache s k of
        None \<Rightarrow> None
      | Some (summary, stored) \<Rightarrow> if now < stored + ttl then Some summary else None)"

text \<open>
  Lines 54-57. The decorator keys the cache by the arguments \<open>(query, max_articles)\<close>;
  on a miss it runs the body, which calls the module-level wrapper, and stores the value
  the body returns. A body that raises stores nothing.
\<close>

definition get_summary_cached_ui :: "env \<Rightarrow> nat \<Rightarrow> pystr \<Rightarrow> int \<Rightarrow> state \<Rightarrow> (error + pystr) \<times> state" where
  "get_summary_cached_ui env now query max_articles s =
     (case outer_lookup s now (query, max_articles) of
        Some summary \<Rightarrow> (Inr summary, s)
      | None \<Rightarrow>
          (case get_summary_cached_module env query max_articles s of
             (Inl e, s1) \<Rightarrow> (Inl e, s1)
           | (Inr summary, s1) \<Rightarrow>
               (Inr summary, s1\<lparr>outer_cache := (outer_cache s1)((query, max_articles) \<mapsto> (summary, now))\<rparr>)))"

subsection \<open>The cache buttons\<close>

text \<open>\<open>st.cache_data.clear()\<close>: empties the cache, unless the framework raises.\<close>

definition st_cache_data_clear :: "env \<Rightarrow> state \<Rightarrow> error + state" where
  "st_cache_data_clear env s =
     (if st_clear_raises env then Inl (OtherException [])
      else Inr (s\<lparr>outer_cache := Map.empty\<rparr>))"

text \<open>
  Lines 44-51, the handler of the button "Clear all caches": an exception of
  \<open>st.cache_data.clear()\<close> is swallowed, then the module cache is cleared.
\<close>

definition clear_all_caches :: "env \<Rightarrow> state \<Rightarrow> element list \<times> state" where
  "clear_all_caches env s =
     (let s1 = (case st_cache_data_clear env s of Inl e \<Rightarrow> s | Inr s' \<Rightarrow> s');
          s2 = clear_module_cache s1
      in ([StSuccess (ascii ''Cleared Streamlit cache and module cache.'')], s2))"

text \<open>Lines 148-153, the handler of the button "Clear Streamlit cache only".\<close>

definition clear_streamlit_cache_only :: "env \<Rightarrow> state \<Rightarrow> element list \<times> state" where
  "clear_streamlit_cache_only env s =
     (case st_cache_data_clear env s of
        Inr s' \<Rightarrow> ([StSuccess (ascii ''Cleared Streamlit cache.'')], s')
      | Inl e \<Rightarrow> ([StError (ascii ''Failed to clear Streamlit cache.'')], s))"

subsection \<open>The run button\<close>

text \<open>Lines 88-97: the header and at most 30 articles.\<close>

definition article_listing :: "article list \<Rightarrow> element list" where
  "article_listing articles =
     StMarkdown (ascii ''### Fetched articles ('' @ str_nat (length articles) @ ascii '')'')
     # map (\<lambda>a. StWrite (article_line a)) (take (min (length articles) 30) articles)"

text \<open>
  Lines 104-113: the estimate is shown, with a warning above 8000; an exception of the
  estimator is swallowed.
\<close>

definition token_notice :: "env \<Rightarrow> pystr \<Rightarrow> element list" where
  "token_notice env text =
     (case estimate_tokens env text of
        Inl e \<Rightarrow> []
      | Inr tokens_est \<Rightarrow>
          StInfo (ascii ''Estimated tokens for input (approx): '' @ str_int tokens_est)
          # (if tokens_est > 8000
             then [StWarning (ascii ''Large token estimate '' @ em_dash
                     @ ascii '' consider lowering max articles to reduce OpenAI usage/cost.'')]
             else []))"

text \<open>
  Lines 71-136, the body of \<open>if run_pressed\<close>. \<open>if summary\<close> is false for \<open>None\<close>
  and for the empty string.
\<close>

definition run_pressed :: "env \<Rightarrow> nat \<Rightarrow> pystr \<Rightarrow> int \<Rightarrow> state \<Rightarrow> element list \<times> state" where
  "run_pressed env now query max_articles s =
     (if py_strip query = [] then ([StWarning (ascii ''Please enter a query.'')], s)
      else
        (case get_news_articles env query max_articles s of
           (r, s1) \<Rightarrow>
             (let out_fetch =
                    (case r of
                       Inl e \<Rightarrow> [StError (ascii ''Failed to fetch articles: '' @ str_error e)]
                     | Inr _ \<Rightarrow> []);
                  articles = (case r of Inl e \<Rightarrow> [] | Inr fetched \<Rightarrow> fetched)
              in if articles = []
                 then (out_fetch @ [StInfo (ascii ''No articles found for this query.'')], s1)
                 else
                   (let out_shown =
                          out_fetch @ article_listing articles @ token_notice env (concat_text articles)
                    in (case get_summary_cached_ui env now query max_articles s1 of
                          (Inl e, s2) \<Rightarrow>
                            (out_shown @ [StError (ascii ''Error during summarization: '' @ str_error e)], s2)
                        | (Inr summary, s2) \<Rightarrow>
                            if summary = [] then (out_shown, s2)
                            else
                              (out_shown
                                 @ [StMarkdown (ascii ''### Summary''), StWrite summary,
                                    StDownloadButton (ascii ''Download summary (txt)'') summary
                                      (ascii ''summary.txt'')],
                               s2\<lparr>history :=
                                    Some ((query, summary)
                                          # (case history s2 of None \<Rightarrow> [] | Some h \<Rightarrow> h))\<rparr>))))))"

text \<open>Lines 139-143: the ten most recent entries, each summary cut at 300 characters.\<close>

definition recent_queries :: "state \<Rightarrow> element list" where
  "recent_queries s =
     (case history s of
        None \<Rightarrow> []
      | Some h \<Rightarrow>
          if h = [] then []
          else StMarkdown (ascii ''### Recent queries'')
               # concat (map (\<lambda>(q, summary).
                               [StWrite (ascii ''**'' @ q @ ascii ''**''),
                                StWrite (take 300 summary
                                         @ (if length summary > 300 then ascii ''...'' else []))])
                          (take 10 h)))"

subsection \<open>One rerun of the script\<close>

text \<open>
  The values of the widgets at a rerun: the slider, the two date inputs, the number input
  of the sidebar, the text input, and which buttons were clicked.
\<close>

record ui =
  max_articles :: int
  date_from :: "(nat \<times> nat \<times> nat) option"
  date_to :: "(nat \<times> nat \<times> nat) option"
  cache_ttl_minutes :: int
  clear_all_clicked :: bool
  query :: pystr
  run_clicked :: bool
  clear_streamlit_clicked :: bool

definition app :: "env \<Rightarrow> nat \<Rightarrow> ui \<Rightarrow> state \<Rightarrow> element list \<times> state" where
  "app env now w s =
     (let out_top =
            [StTitle (ascii ''Equity Research News Tool''), StMarkdown (ascii ''## Options''),
             StMarkdown (ascii ''---''),
             StWrite (ascii ''Tip: keep `max articles` low while developing to save tokens.''),
             StMarkdown (ascii ''---'')];
          (out_clear, s1) = (if clear_all_clicked w then clear_all_caches env s else ([], s));
          (out_run, s2) =
            (if run_clicked w then run_pressed env now (query w) (max_articles w) s1 else ([], s1));
          out_history = recent_queries s2;
          (out_dev, s3) =
            (if clear_streamlit_clicked w then clear_streamlit_cache_only env s2 else ([], s2));
          out_tools =
            [StWrite (ascii ''Use these when developing to inspect/clear caches.'')] @ out_dev
            @ [StWrite (ascii ''Module-level cached function available: get_summary_cached_module(query, max_articles)'')];
          out_footer =
            [StMarkdown (ascii ''---''),
             StMarkdown (ascii ''Notes: This tool uses NewsAPI (developer key limits apply) and OpenAI (token costs). Keep `max articles` low during development to reduce cost.'')]
      in (out_top @ out_clear @ out_run @ out_history @ out_tools @ out_footer, s3))"

section \<open>The lifecycle of a key\<close>

text \<open>
  The position of a key \<open>(query, max_articles)\<close> in the state machine of the
  specification, read off the two tiers at time \<open>now\<close>: in neither tier, served by the
  outer tier only, by both, or by the inner tier only (an expired outer entry serves
  nothing).
\<close>

datatype phase = UNSET | CACHED_OUTER | CACHED_BOTH | CACHED_INNER

definition key_phase :: "state \<Rightarrow> nat \<Rightarrow> key \<Rightarrow> phase" where
  "key_phase s now k =
     (case (outer_lookup s now k, inner_cache s k) of
        (None, None) \<Rightarrow> UNSET
      | (Some _, None) \<Rightarrow> CACHED_OUTER
      | (Some _, Some _) \<Rightarrow> CACHED_BOTH
      | (None, Some _) \<Rightarrow> CACHED_INNER)"

section \<open>Concrete inputs\<close>

text \<open>
  An article without description, an environment whose services give fixed answers, and
  the state of a process that has just started.
\<close>

definition sample_article :: article where
  "sample_article =
     \<lparr>title = Some (ascii ''Acme beats estimates''), description = None,
      source = Source (Some (ascii ''Wire'')), url = None\<rparr>"

definition sample_env :: "pystr + article list \<Rightarrow> pystr + pystr \<Rightarrow> int \<Rightarrow> env" where
  "sample_env fetched answer estimate =
     \<lparr>news_api = (\<lambda>n q m. fetched), llm_api = (\<lambda>n text. answer),
      estimate_tokens = (\<lambda>text. Inr estimate), st_clear_raises = False\<rparr>"

definition started :: state where
  "started = \<lparr>outer_cache = Map.empty, inner_cache = Map.empty, history = None,
              fetch_calls = 0, llm_calls = 0\<rparr>"

text \<open>The state after one successful call for \<open>(q, 5)\<close> at time 0 in a started process.\<close>

definition sample_cached :: "pystr \<Rightarrow> state" where
  "sample_cached q =
     started\<lparr>fetch_calls := 1, llm_calls := 1,
       inner_cache := [(q, 5) \<mapsto> ascii ''Summary''],
       outer_cache := [(q, 5) \<mapsto> (ascii ''Summary'', 0)]\<rparr>"

section \<open>Auxiliary facts\<close>

lemma nonblank_Acme: "py_strip (ascii ''Acme Corp'') \<noteq> []"
  by (simp add: py_strip_def ascii_def py_isspace_def)

text \<open>The uncached computation touches neither tier nor the history.\<close>

lemma get_summary_caches:
  "get_summary env q m s = (r, s1) \<Longrightarrow>
   outer_cache s1 = outer_cache s \<and> inner_cache s1 = inner_cache s \<and> history s1 = history s"
  by (auto simp: get_summary_def get_news_articles_def summarize_articles_llm_def
      split: sum.splits)

text \<open>The module-level wrapper writes at most its own key, and never over an entry.\<close>

lemma cached_module_caches:
  assumes "get_summary_cached_module env q m s = (r, s1)"
  shows "outer_cache s1 = outer_cache s \<and> history s1 = history s
       \<and> (\<forall>k. k \<noteq> (q, m) \<longrightarrow> inner_cache s1 k = inner_cache s k)
       \<and> (\<forall>v. inner_cache s (q, m) = Some v \<longrightarrow> inner_cache s1 (q, m) = Some v)"
proof (cases "inner_cache s (q, m)")
  case (Some v)
  with assms show ?thesis by (simp add: get_summary_cached_module_def)
next
  case None
  obtain r' s' where g: "get_summary env q m s = (r', s')"
    by (cases "get_summary env q m s")
  from get_summary_caches [OF g] assms None g show ?thesis
    by (cases r') (auto simp: get_summary_cached_module_def)
qed

lemma cached_ui_caches:
  assumes "get_summary_cached_ui env now q m s = (r, s1)"
  shows "history s1 = history s
       \<and> (\<forall>k. k \<noteq> (q, m) \<longrightarrow> outer_cache s1 k = outer_cache s k \<and> inner_cache s1 k = inner_cache s k)
       \<and> (\<forall>v. inner_cache s (q, m) = Some v \<longrightarrow> inner_cache s1 (q, m) = Some v)"
proof (cases "outer_lookup s now (q, m)")
  case (Some v)
  with assms show ?thesis by (simp add: get_summary_cached_ui_def)
next
  case None
  obtain r' s' where g: "get_summary_cached_module env q m s = (r', s')"
    by (cases "get_summary_cached_module env q m s")
  from cached_module_caches [OF g] assms None g show ?thesis
    by (cases r') (auto simp: get_summary_cached_ui_def)
qed

text \<open>The session history is carried through the cached call unread.\<close>

lemma get_summary_history:
  "get_summary env q m (s\<lparr>history := h\<rparr>) =
     (fst (get_summary env q m s), (snd (get_summary env q m s))\<lparr>history := h\<rparr>)"
  by (simp add: get_summary_def get_news_articles_def summarize_articles_llm_def split: sum.split)

lemma cached_module_history:
  "get_summary_cached_module env q m (s\<lparr>history := h\<rparr>) =
     (fst (get_summary_cached_module env q m s),
      (snd (get_summary_cached_module env q m s))\<lparr>history := h\<rparr>)"
  by (cases "get_summary env q m s")
     (simp add: get_summary_cached_module_def get_summary_history split: option.split sum.split)

lemma cached_ui_history:
  "get_summary_cached_ui env now q m (s\<lparr>history := h\<rparr>) =
     (fst (get_summary_cached_ui env now q m s),
      (snd (get_summary_cached_ui env now q m s))\<lparr>history := h\<rparr>)"
  by (cases "get_summary_cached_module env q m s")
     (simp add: get_summary_cached_ui_def cached_module_history outer_lookup_def
        split: option.split sum.split)

text \<open>The estimator is not read by the cached call.\<close>

lemma get_summary_env:
  "get_summary (env\<lparr>estimate_tokens := est\<rparr>) q m s = get_summary env q m s"
  by (simp add: get_summary_def get_news_articles_def summarize_articles_llm_def split: sum.split)

lemma cached_module_env:
  "get_summary_cached_module (env\<lparr>estimate_tokens := est\<rparr>) q m s = get_summary_cached_module env q m s"
  by (simp add: get_summary_cached_module_def get_summary_env split: option.split)

lemma cached_ui_env:
  "get_summary_cached_ui (env\<lparr>estimate_tokens := est\<rparr>) now q m s = get_summary_cached_ui env now q m s"
  by (simp add: get_summary_cached_ui_def cached_module_env split: option.split)

text \<open>Where a warning can appear in what the run button shows.\<close>

lemma warning_notin_listing: "StWarning x \<notin> set (article_listing articles)"
  by (auto simp: article_listing_def)

lemma warning_in_notice:
  "StWarning x \<in> set (token_notice env text) \<longleftrightarrow>
     (\<exists>n. estimate_tokens env text = Inr n \<and> n > 8000
          \<and> x = ascii ''Large token estimate '' @ em_dash
                 @ ascii '' consider lowering max articles to reduce OpenAI usage/cost.'')"
  by (cases "estimate_tokens env text") (auto simp: token_notice_def)

text \<open>A call that misses both tiers, with a successful fetch.\<close>

lemma cached_ui_miss:
  assumes "outer_lookup s now (q, m) = None" and "inner_cache s (q, m) = None"
    and "news_api env (fetch_calls s) q m = Inr articles"
  shows "get_summary_cached_ui env now q m s =
     (case llm_api env (llm_calls s) (concat_text articles) of
        Inl msg \<Rightarrow> (Inl (SummarizationError msg),
                    s\<lparr>fetch_calls := Suc (fetch_calls s), llm_calls := Suc (llm_calls s)\<rparr>)
      | Inr summary \<Rightarrow> (Inr summary,
                    s\<lparr>fetch_calls := Suc (fetch_calls s), llm_calls := Suc (llm_calls s),
                      inner_cache := (inner_cache s)((q, m) \<mapsto> summary),
                      outer_cache := (outer_cache s)((q, m) \<mapsto> (summary, now))\<rparr>))"
  using assms
  by (simp add: get_summary_cached_ui_def get_summary_cached_module_def get_summary_def
      get_news_articles_def summarize_articles_llm_def split: sum.split)

lemma clear_all_state:
  "\<not> st_clear_raises env \<Longrightarrow>
   snd (clear_all_caches env s) = s\<lparr>outer_cache := Map.empty, inner_cache := Map.empty\<rparr>"
  by (simp add: clear_all_caches_def st_cache_data_clear_def clear_module_cache_def)

text \<open>Nothing but the button "Clear all caches" removes an entry of the module cache.\<close>

lemma cached_ui_inner_kept:
  assumes "inner_cache s k = Some v"
  shows "inner_cache (snd (get_summary_cached_ui env now q m s)) k = Some v"
proof -
  obtain r s1 where g: "get_summary_cached_ui env now q m s = (r, s1)"
    by (cases "get_summary_cached_ui env now q m s")
  from cached_ui_caches [OF g] assms have "inner_cache s1 k = Some v"
    by (cases "k = (q, m)") metis+
  with g show ?thesis by simp
qed

lemma run_pressed_inner_kept:
  assumes "inner_cache s k = Some v"
  shows "inner_cache (snd (run_pressed env now q m s)) k = Some v"
proof -
  let ?s1 = "s\<lparr>fetch_calls := Suc (fetch_calls s)\<rparr>"
  have s1: "inner_cache ?s1 k = Some v" using assms by simp
  obtain r s2 where g: "get_summary_cached_ui env now q m ?s1 = (r, s2)"
    by (cases "get_summary_cached_ui env now q m ?s1")
  from cached_ui_inner_kept [OF s1, of env now q m] g have s2: "inner_cache s2 k = Some v"
    by simp
  show ?thesis
    using assms g s2
    by (cases r; cases "news_api env (fetch_calls s) q m")
       (simp_all add: run_pressed_def get_news_articles_def Let_def)
qed

lemma clear_streamlit_inner_kept:
  "inner_cache (snd (clear_streamlit_cache_only env s)) k = inner_cache s k"
  by (simp add: clear_streamlit_cache_only_def st_cache_data_clear_def)

lemma app_inner_kept:
  assumes "\<not> clear_all_clicked w" and "inner_cache s k = Some v"
  shows "inner_cache (snd (app env now w s)) k = Some v"
proof -
  let ?s2 = "if run_clicked w then snd (run_pressed env now (query w) (max_articles w) s) else s"
  have s2: "inner_cache ?s2 k = Some v"
    using assms(2) by (simp add: run_pressed_inner_kept)
  have "snd (app env now w s) =
          (if clear_streamlit_clicked w then snd (clear_streamlit_cache_only env ?s2) else ?s2)"
    using assms(1) by (simp add: app_def Let_def split: prod.split)
  with s2 show ?thesis
    by (simp add: clear_streamlit_inner_kept)
qed

text \<open>The first call in a started process, through both tiers and through the inner one.\<close>

lemma sample_first_call:
  "get_summary_cached_ui (sample_env (Inr [sample_article]) (Inr (ascii ''Summary'')) 12) 0 q 5 started
     = (Inr (ascii ''Summary''), sample_cached q)"
  by (simp add: get_summary_cached_ui_def get_summary_cached_module_def get_summary_def
      get_news_articles_def summarize_articles_llm_def outer_lookup_def sample_env_def
      started_def sample_cached_def)

lemma sample_first_inner:
  "get_summary_cached_module (sample_env (Inr [sample_article]) (Inr (ascii ''Summary'')) 12) q 5 started
     = (Inr (ascii ''Summary''),
        started\<lparr>fetch_calls := 1, llm_calls := 1, inner_cache := [(q, 5) \<mapsto> ascii ''Summary'']\<rparr>)"
  by (simp add: get_summary_cached_module_def get_summary_def
      get_news_articles_def summarize_articles_llm_def sample_env_def started_def)

text \<open>A call that misses both tiers, with a failing fetch: the LLM is not reached.\<close>

lemma cached_ui_miss_fetch_fails:
  assumes "outer_lookup s now (q, m) = None" and "inner_cache s (q, m) = None"
    and "news_api env (fetch_calls s) q m = Inl msg"
  shows "get_summary_cached_ui env now q m s =
           (Inl (FetchError msg), s\<lparr>fetch_calls := Suc (fetch_calls s)\<rparr>)"
  using assms
  by (simp add: get_summary_cached_ui_def get_summary_cached_module_def get_summary_def
      get_news_articles_def)

text \<open>
  When \<open>st.cache_data.clear()\<close> returns normally, the handler of "Clear all caches"
  leaves both tiers empty, and the next call of the cached entry point, for any key and at
  any time, calls the Fetcher again; it then calls the LLM and returns its answer, or,
  the fetch failing, raises the fetch error without calling the LLM.
\<close>

lemma clear_all_then_recomputes:
  assumes "\<not> st_clear_raises env"
  shows "outer_cache (snd (clear_all_caches env s)) = Map.empty
       \<and> inner_cache (snd (clear_all_caches env s)) = Map.empty
       \<and> fetch_calls (snd (get_summary_cached_ui env now q m (snd (clear_all_caches env s))))
           = Suc (fetch_calls s)
       \<and> (\<forall>articles. news_api env (fetch_calls s) q m = Inr articles \<longrightarrow>
             llm_calls (snd (get_summary_cached_ui env now q m (snd (clear_all_caches env s))))
               = Suc (llm_calls s)
           \<and> fst (get_summary_cached_ui env now q m (snd (clear_all_caches env s)))
               = (case llm_api env (llm_calls s) (concat_text articles) of
                    Inl msg \<Rightarrow> Inl (SummarizationError msg)
                  | Inr summary \<Rightarrow> Inr summary))
       \<and> (\<forall>msg. news_api env (fetch_calls s) q m = Inl msg \<longrightarrow>
             llm_calls (snd (get_summary_cached_ui env now q m (snd (clear_all_caches env s))))
               = llm_calls s
           \<and> fst (get_summary_cached_ui env now q m (snd (clear_all_caches env s)))
               = Inl (FetchError msg))"
proof -
  let ?c = "s\<lparr>outer_cache := Map.empty, inner_cache := Map.empty\<rparr>"
  have c: "snd (clear_all_caches env s) = ?c"
    using assms by (rule clear_all_state)
  have miss: "outer_lookup ?c now (q, m) = None" "inner_cache ?c (q, m) = None"
    by (simp_all add: outer_lookup_def)
  have tiers: "outer_cache ?c = Map.empty" "inner_cache ?c = Map.empty"
    by simp_all
  have ok: "llm_calls (snd (get_summary_cached_ui env now q m ?c)) = Suc (llm_calls s)
           \<and> fetch_calls (snd (get_summary_cached_ui env now q m ?c)) = Suc (fetch_calls s)
           \<and> fst (get_summary_cached_ui env now q m ?c)
               = (case llm_api env (llm_calls s) (concat_text articles) of
                    Inl msg \<Rightarrow> Inl (SummarizationError msg)
                  | Inr summary \<Rightarrow> Inr summary)"
    if f: "news_api env (fetch_calls s) q m = Inr articles" for articles
  proof -
    from f have "news_api env (fetch_calls ?c) q m = Inr articles" by simp
    from cached_ui_miss [OF miss this] show ?thesis
      by (simp split: sum.split)
  qed
  have failed: "llm_calls (snd (get_summary_cached_ui env now q m ?c)) = llm_calls s
           \<and> fetch_calls (snd (get_summary_cached_ui env now q m ?c)) = Suc (fetch_calls s)
           \<and> fst (get_summary_cached_ui env now q m ?c) = Inl (FetchError msg)"
    if f: "news_api env (fetch_calls s) q m = Inl msg" for msg
  proof -
    from f have "news_api env (fetch_calls ?c) q m = Inl msg" by simp
    from cached_ui_miss_fetch_fails [OF miss this] show ?thesis
      by simp
  qed
  have fetched: "fetch_calls (snd (get_summary_cached_ui env now q m ?c)) = Suc (fetch_calls s)"
    using ok failed by (cases "news_api env (fetch_calls s) q m") blast+
  from tiers fetched ok failed show ?thesis
    unfolding c by blast
qed

section \<open>The claims\<close>

text \<open>
  Claim C1: after the handler of "Clear all caches" has returned, neither tier holds a key
  and the next call of the cached entry point computes afresh. The handler does so when
  \<open>st.cache_data.clear()\<close> returns normally, and does not when it raises. With the key
  ("Acme Corp", 5) in both tiers, the handler swallows the exception, empties the inner
  tier only and still shows "Cleared Streamlit cache and module cache.", where the handler
  of "Clear Streamlit cache only" shows "Failed to clear Streamlit cache."; one minute
  after the entry was stored the outer tier serves the old summary, and the call makes no
  Fetcher and no LLM call.
\<close>

theorem clear_all_swallowed_failure:
  "outer_lookup (snd (clear_all_caches
          ((sample_env (Inr [sample_article]) (Inr (ascii ''Later'')) 12)\<lparr>st_clear_raises := True\<rparr>)
          (sample_cached (ascii ''Acme Corp'')))) 60 (ascii ''Acme Corp'', 5) = Some (ascii ''Summary'')
   \<and> inner_cache (snd (clear_all_caches
          ((sample_env (Inr [sample_article]) (Inr (ascii ''Later'')) 12)\<lparr>st_clear_raises := True\<rparr>)
          (sample_cached (ascii ''Acme Corp'')))) (ascii ''Acme Corp'', 5) = None
   \<and> fst (clear_all_caches
          ((sample_env (Inr [sample_article]) (Inr (ascii ''Later'')) 12)\<lparr>st_clear_raises := True\<rparr>)
          (sample_cached (ascii ''Acme Corp'')))
       = [StSuccess (ascii ''Cleared Streamlit cache and module cache.'')]
   \<and> fst (clear_streamlit_cache_only
          ((sample_env (Inr [sample_article]) (Inr (ascii ''Later'')) 12)\<lparr>st_clear_raises := True\<rparr>)
          (sample_cached (ascii ''Acme Corp'')))
       = [StError (ascii ''Failed to clear Streamlit cache.'')]
   \<and> fst (get_summary_cached_ui
          ((sample_env (Inr [sample_article]) (Inr (ascii ''Later'')) 12)\<lparr>st_clear_raises := True\<rparr>) 60
          (ascii ''Acme Corp'') 5
          (snd (clear_all_caches
            ((sample_env (Inr [sample_article]) (Inr (ascii ''Later'')) 12)\<lparr>st_clear_raises := True\<rparr>)
            (sample_cached (ascii ''Acme Corp''))))) = Inr (ascii ''Summary'')
   \<and> fetch_calls (snd (get_summary_cached_ui
          ((sample_env (Inr [sample_article]) (Inr (ascii ''Later'')) 12)\<lparr>st_clear_raises := True\<rparr>) 60
          (ascii ''Acme Corp'') 5
          (snd (clear_all_caches
            ((sample_env (Inr [sample_article]) (Inr (ascii ''Later'')) 12)\<lparr>st_clear_raises := True\<rparr>)
            (sample_cached (ascii ''Acme Corp'')))))) = 1
   \<and> llm_calls (snd (get_summary_cached_ui
          ((sample_env (Inr [sample_article]) (Inr (ascii ''Later'')) 12)\<lparr>st_clear_raises := True\<rparr>) 60
          (ascii ''Acme Corp'') 5
          (snd (clear_all_caches
            ((sample_env (Inr [sample_article]) (Inr (ascii ''Later'')) 12)\<lparr>st_clear_raises := True\<rparr>)
            (sample_cached (ascii ''Acme Corp'')))))) = 1"
  by (simp add: clear_all_caches_def clear_streamlit_cache_only_def st_cache_data_clear_def
      clear_module_cache_def get_summary_cached_ui_def outer_lookup_def sample_cached_def
      started_def ttl_def)

text \<open>
  Claim C2. When a call of \<open>get_summary_cached_ui\<close> has returned a summary, the outer
  tier holds it under the key \<open>(query, max_articles)\<close>, stored at some time and not yet
  expired; and every later call with the same pair made before that entry expires, with no
  clear in between, returns the same text and leaves the state as it is, whatever the
  upstream services would answer now: it is a hit and makes no upstream call at all.
\<close>

theorem cached_ui_idempotent:
  assumes "get_summary_cached_ui env now q m s = (Inr summary, s1)"
  shows "\<exists>stored. outer_cache s1 (q, m) = Some (summary, stored) \<and> now < stored + ttl
           \<and> (\<forall>now' env'. now' < stored + ttl \<longrightarrow>
                 get_summary_cached_ui env' now' q m s1 = (Inr summary, s1))"
proof (cases "outer_lookup s now (q, m)")
  case (Some v)
  with assms have eq: "v = summary" "s1 = s"
    by (simp_all add: get_summary_cached_ui_def)
  from Some eq obtain stored where e: "outer_cache s1 (q, m) = Some (summary, stored)" "now < stored + ttl"
    by (auto simp: outer_lookup_def split: option.splits if_splits)
  then have "\<forall>now' env'. now' < stored + ttl \<longrightarrow>
                 get_summary_cached_ui env' now' q m s1 = (Inr summary, s1)"
    by (simp add: get_summary_cached_ui_def outer_lookup_def)
  with e show ?thesis by blast
next
  case None
  obtain r' s' where g: "get_summary_cached_module env q m s = (r', s')"
    by (cases "get_summary_cached_module env q m s")
  from assms None g have s1: "s1 = s'\<lparr>outer_cache := (outer_cache s')((q, m) \<mapsto> (summary, now))\<rparr>"
    by (cases r') (simp_all add: get_summary_cached_ui_def)
  then have e: "outer_cache s1 (q, m) = Some (summary, now)" "now < now + ttl"
    by (simp_all add: ttl_def)
  then have "\<forall>now' env'. now' < now + ttl \<longrightarrow>
                 get_summary_cached_ui env' now' q m s1 = (Inr summary, s1)"
    by (simp add: get_summary_cached_ui_def outer_lookup_def)
  with e show ?thesis by blast
qed

theorem cached_ui_idempotent_witness:
  "get_summary_cached_ui (sample_env (Inr [sample_article]) (Inr (ascii ''Summary'')) 12) 0
       (ascii ''Acme Corp'') 5 started
     = (Inr (ascii ''Summary''), sample_cached (ascii ''Acme Corp''))
   \<and> get_summary_cached_ui (sample_env (Inl (ascii ''quota'')) (Inr (ascii ''Other'')) 12) 3600
       (ascii ''Acme Corp'') 5 (sample_cached (ascii ''Acme Corp''))
     = (Inr (ascii ''Summary''), sample_cached (ascii ''Acme Corp''))"
proof -
  let ?q = "ascii ''Acme Corp''"
  from cached_ui_idempotent [OF sample_first_call]
  obtain stored where e: "outer_cache (sample_cached ?q) (?q, 5) = Some (ascii ''Summary'', stored)"
    and hit: "\<forall>now' env'. now' < stored + ttl \<longrightarrow>
       get_summary_cached_ui env' now' ?q 5 (sample_cached ?q) = (Inr (ascii ''Summary''), sample_cached ?q)"
    by blast
  from e have "stored = 0" by (simp add: sample_cached_def)
  then have "(3600::nat) < stored + ttl" by (simp add: ttl_def)
  with hit sample_first_call show ?thesis by blast
qed

text \<open>
  Claim C3, as amended. The cache key is the exact pair \<open>(query, max_articles)\<close>: a
  call under one key leaves the lookups of every other key as they were, in both tiers, so
  queries that differ in letter case or in whitespace never hit each other's entries. A
  lookup is decided by the entry stored under its key: an inner-tier entry is served at any
  time, an outer-tier entry is served while it is younger than 24 hours and is a miss from
  then on; neither reads the session history.
\<close>

theorem cache_key_exact_pair:
  assumes "(q1, m1) \<noteq> (q2, m2)"
  shows "outer_lookup (snd (get_summary_cached_ui env now q1 m1 s)) t (q2, m2) = outer_lookup s t (q2, m2)
       \<and> inner_cache (snd (get_summary_cached_ui env now q1 m1 s)) (q2, m2) = inner_cache s (q2, m2)
       \<and> (inner_cache s (q1, m1) = Some v \<longrightarrow> get_summary_cached_module env q1 m1 s = (Inr v, s))
       \<and> (outer_cache s (q1, m1) = Some (v, stored) \<and> t < stored + ttl \<longrightarrow>
            get_summary_cached_ui env t q1 m1 s = (Inr v, s))
       \<and> (outer_cache s (q1, m1) = Some (v, stored) \<and> stored + ttl \<le> t \<longrightarrow>
            outer_lookup s t (q1, m1) = None)
       \<and> get_summary_cached_ui env now q1 m1 (s\<lparr>history := h\<rparr>) =
            (fst (get_summary_cached_ui env now q1 m1 s),
             (snd (get_summary_cached_ui env now q1 m1 s))\<lparr>history := h\<rparr>)"
proof -
  obtain r s1 where g: "get_summary_cached_ui env now q1 m1 s = (r, s1)"
    by (cases "get_summary_cached_ui env now q1 m1 s")
  from cached_ui_caches [OF g] assms
  have other: "outer_cache s1 (q2, m2) = outer_cache s (q2, m2)"
    "inner_cache s1 (q2, m2) = inner_cache s (q2, m2)"
    by metis+
  have a: "outer_lookup (snd (get_summary_cached_ui env now q1 m1 s)) t (q2, m2) = outer_lookup s t (q2, m2)"
    using other g by (simp add: outer_lookup_def)
  have b: "inner_cache (snd (get_summary_cached_ui env now q1 m1 s)) (q2, m2) = inner_cache s (q2, m2)"
    using other g by simp
  have c: "inner_cache s (q1, m1) = Some v \<longrightarrow> get_summary_cached_module env q1 m1 s = (Inr v, s)"
    by (simp add: get_summary_cached_module_def)
  have d: "outer_cache s (q1, m1) = Some (v, stored) \<and> t < stored + ttl \<longrightarrow>
            get_summary_cached_ui env t q1 m1 s = (Inr v, s)"
    by (simp add: get_summary_cached_ui_def outer_lookup_def)
  have e: "outer_cache s (q1, m1) = Some (v, stored) \<and> stored + ttl \<le> t \<longrightarrow>
            outer_lookup s t (q1, m1) = None"
    by (simp add: outer_lookup_def)
  from a b c d e cached_ui_history show ?thesis by blast
qed

theorem cache_key_exact_pair_witness:
  "(ascii ''acme'', 5) \<noteq> (ascii ''Acme'', 5::int)
   \<and> (ascii ''acme'', 5) \<noteq> (ascii ''acme '', 5::int)
   \<and> outer_lookup (snd (get_summary_cached_ui (sample_env (Inr [sample_article]) (Inr (ascii ''Summary'')) 12)
         0 (ascii ''acme'') 5 started)) 60 (ascii ''Acme'', 5) = None
   \<and> inner_cache (snd (get_summary_cached_ui (sample_env (Inr [sample_article]) (Inr (ascii ''Summary'')) 12)
         0 (ascii ''acme'') 5 started)) (ascii ''Acme'', 5) = None
   \<and> outer_lookup (snd (get_summary_cached_ui (sample_env (Inr [sample_article]) (Inr (ascii ''Summary'')) 12)
         0 (ascii ''acme'') 5 started)) 60 (ascii ''acme '', 5) = None
   \<and> inner_cache (snd (get_summary_cached_ui (sample_env (Inr [sample_article]) (Inr (ascii ''Summary'')) 12)
         0 (ascii ''acme'') 5 started)) (ascii ''acme '', 5) = None
   \<and> get_summary_cached_module (sample_env (Inl (ascii ''quota'')) (Inr (ascii ''Other'')) 12)
         (ascii ''acme'') 5 (sample_cached (ascii ''acme''))
       = (Inr (ascii ''Summary''), sample_cached (ascii ''acme''))
   \<and> get_summary_cached_ui (sample_env (Inl (ascii ''quota'')) (Inr (ascii ''Other'')) 12)
         60 (ascii ''acme'') 5 (sample_cached (ascii ''acme''))
       = (Inr (ascii ''Summary''), sample_cached (ascii ''acme''))
   \<and> outer_lookup (sample_cached (ascii ''acme'')) 86400 (ascii ''acme'', 5) = None"
proof -
  let ?E = "sample_env (Inr [sample_article]) (Inr (ascii ''Summary'')) 12"
  let ?F = "sample_env (Inl (ascii ''quota'')) (Inr (ascii ''Other'')) 12"
  let ?S = "sample_cached (ascii ''acme'')"
  have k1: "(ascii ''acme'', 5) \<noteq> (ascii ''Acme'', 5::int)" by (simp add: ascii_def)
  have k2: "(ascii ''acme'', 5) \<noteq> (ascii ''acme '', 5::int)" by (simp add: ascii_def)
  have none: "outer_lookup started 60 (ascii ''Acme'', 5) = None" "inner_cache started (ascii ''Acme'', 5) = None"
    "outer_lookup started 60 (ascii ''acme '', 5) = None" "inner_cache started (ascii ''acme '', 5) = None"
    by (simp_all add: outer_lookup_def started_def)
  have inner: "inner_cache ?S (ascii ''acme'', 5) = Some (ascii ''Summary'')"
    by (simp add: sample_cached_def)
  have young: "outer_cache ?S (ascii ''acme'', 5) = Some (ascii ''Summary'', 0) \<and> 60 < 0 + ttl"
    by (simp add: sample_cached_def ttl_def)
  have old: "outer_cache ?S (ascii ''acme'', 5) = Some (ascii ''Summary'', 0) \<and> 0 + ttl \<le> 86400"
    by (simp add: sample_cached_def ttl_def)
  note a = cache_key_exact_pair [OF k1, of ?E 0 started 60]
  note b = cache_key_exact_pair [OF k2, of ?E 0 started 60]
  note c = cache_key_exact_pair [OF k1, of ?F 0 ?S 60 "ascii ''Summary''" 0]
  note d = cache_key_exact_pair [OF k1, of ?F 0 ?S 86400 "ascii ''Summary''" 0]
  from a none have a': "outer_lookup (snd (get_summary_cached_ui ?E 0 (ascii ''acme'') 5 started)) 60 (ascii ''Acme'', 5) = None"
    "inner_cache (snd (get_summary_cached_ui ?E 0 (ascii ''acme'') 5 started)) (ascii ''Acme'', 5) = None"
    by simp_all
  from b none have b': "outer_lookup (snd (get_summary_cached_ui ?E 0 (ascii ''acme'') 5 started)) 60 (ascii ''acme '', 5) = None"
    "inner_cache (snd (get_summary_cached_ui ?E 0 (ascii ''acme'') 5 started)) (ascii ''acme '', 5) = None"
    by simp_all
  from c inner young have c': "get_summary_cached_module ?F (ascii ''acme'') 5 ?S = (Inr (ascii ''Summary''), ?S)"
    "get_summary_cached_ui ?F 60 (ascii ''acme'') 5 ?S = (Inr (ascii ''Summary''), ?S)"
    by blast+
  from d old have d': "outer_lookup ?S 86400 (ascii ''acme'', 5) = None"
    by blast
  from k1 k2 a' b' c' d' show ?thesis by blast
qed

text \<open>
  The outer lookup does read the clock: with the same cache and the same key it is a hit
  one minute after the entry was stored and a miss 24 hours after.
\<close>

theorem outer_lookup_reads_clock_counterexample:
  "outer_lookup (snd (get_summary_cached_ui (sample_env (Inr [sample_article]) (Inr (ascii ''Summary'')) 12)
         0 (ascii ''acme'') 5 started)) 60 (ascii ''acme'', 5) = Some (ascii ''Summary'')
   \<and> outer_lookup (snd (get_summary_cached_ui (sample_env (Inr [sample_article]) (Inr (ascii ''Summary'')) 12)
         0 (ascii ''acme'') 5 started)) 86400 (ascii ''acme'', 5) = None"
  by (simp add: sample_first_call sample_cached_def outer_lookup_def ttl_def)

text \<open>
  Claim C4. The text built from a list of articles joins the title and the description of
  each article with a space, an em-dash and a space, and separates the articles by a blank
  line; an absent title or description contributes the empty string. For an article with
  title "A" and description "B" followed by one with title "C" and no description, the
  text is "A - B", a blank line, "C - " (with em-dashes), whatever the other fields are.
\<close>

theorem concat_text_format:
  "concat_text [] = []
   \<and> concat_text [a] =
       (case title a of None \<Rightarrow> [] | Some t \<Rightarrow> t) @ [32, 8212, 32]
       @ (case description a of None \<Rightarrow> [] | Some d \<Rightarrow> d)
   \<and> concat_text (a # b # rest) =
       (case title a of None \<Rightarrow> [] | Some t \<Rightarrow> t) @ [32, 8212, 32]
       @ (case description a of None \<Rightarrow> [] | Some d \<Rightarrow> d) @ [10, 10] @ concat_text (b # rest)
   \<and> concat_text
         [x\<lparr>title := Some (ascii ''A''), description := Some (ascii ''B'')\<rparr>,
          y\<lparr>title := Some (ascii ''C''), description := None\<rparr>]
       = ascii ''A '' @ em_dash @ ascii '' B'' @ [10, 10] @ ascii ''C '' @ em_dash @ ascii '' ''"
  by (simp add: concat_text_def or_str_def ascii_def em_dash_def split: option.split)

text \<open>
  Claim C5. When the query is not blank and the fetch fails or returns no article, the run
  does not crash: a failure is shown as "Failed to fetch articles: ..." and treated as zero
  articles, the user sees "No articles found for this query.", and nothing else happens:
  the state differs from the one before only in the count of fetch calls, so no LLM call was
  made, neither cache tier records anything and the history is as it was.
\<close>

theorem fetch_failure_or_no_articles:
  assumes "py_strip q \<noteq> []"
    and "news_api env (fetch_calls s) q m = Inl msg \<or> news_api env (fetch_calls s) q m = Inr []"
  shows "run_pressed env now q m s =
           ((case news_api env (fetch_calls s) q m of
               Inl msg \<Rightarrow> [StError (ascii ''Failed to fetch articles: '' @ msg)]
             | Inr _ \<Rightarrow> [])
            @ [StInfo (ascii ''No articles found for this query.'')],
            s\<lparr>fetch_calls := Suc (fetch_calls s)\<rparr>)
       \<and> llm_calls (snd (run_pressed env now q m s)) = llm_calls s
       \<and> outer_cache (snd (run_pressed env now q m s)) = outer_cache s
       \<and> inner_cache (snd (run_pressed env now q m s)) = inner_cache s
       \<and> history (snd (run_pressed env now q m s)) = history s"
  using assms by (auto simp: run_pressed_def get_news_articles_def)

theorem fetch_failure_or_no_articles_witness:
  "run_pressed (sample_env (Inr []) (Inr (ascii ''Summary'')) 12) 0 (ascii ''Acme Corp'') 5 started =
     ([StInfo (ascii ''No articles found for this query.'')], started\<lparr>fetch_calls := 1\<rparr>)
   \<and> run_pressed (sample_env (Inl (ascii ''quota'')) (Inr (ascii ''Summary'')) 12) 0 (ascii ''Acme Corp'') 5 started =
     ([StError (ascii ''Failed to fetch articles: '' @ ascii ''quota''),
       StInfo (ascii ''No articles found for this query.'')], started\<lparr>fetch_calls := 1\<rparr>)"
proof -
  let ?E = "sample_env (Inr []) (Inr (ascii ''Summary'')) 12"
  let ?F = "sample_env (Inl (ascii ''quota'')) (Inr (ascii ''Summary'')) 12"
  have e: "news_api ?E (fetch_calls started) (ascii ''Acme Corp'') 5 = Inl []
           \<or> news_api ?E (fetch_calls started) (ascii ''Acme Corp'') 5 = Inr []"
    by (simp add: sample_env_def)
  have f: "news_api ?F (fetch_calls started) (ascii ''Acme Corp'') 5 = Inl (ascii ''quota'')
           \<or> news_api ?F (fetch_calls started) (ascii ''Acme Corp'') 5 = Inr []"
    by (simp add: sample_env_def)
  show ?thesis
    using fetch_failure_or_no_articles [OF nonblank_Acme e, of 0]
      fetch_failure_or_no_articles [OF nonblank_Acme f, of 0]
    by (simp add: sample_env_def started_def)
qed



text \<open>
  Claim C7. With a non-blank query and at least one fetched article, the cost warning is
  shown exactly when the estimator returns a value above 8000. The estimate gates nothing:
  the state after the run is the same for every estimator (raising ones included), it is
  the state the cached summarization call leaves (plus the history entry of a non-empty
  summary), and on a miss in both tiers with a successful fetch the LLM is called once.
\<close>

theorem token_estimate_is_advisory:
  assumes "py_strip q \<noteq> []"
    and "news_api env (fetch_calls s) q m = Inr articles"
    and "articles \<noteq> []"
  shows "(StWarning (ascii ''Large token estimate '' @ em_dash
                 @ ascii '' consider lowering max articles to reduce OpenAI usage/cost.'')
            \<in> set (fst (run_pressed env now q m s))
          \<longleftrightarrow> (\<exists>n. estimate_tokens env (concat_text articles) = Inr n \<and> n > 8000))
       \<and> snd (run_pressed (env\<lparr>estimate_tokens := est\<rparr>) now q m s) = snd (run_pressed env now q m s)
       \<and> snd (run_pressed env now q m s) =
           (case get_summary_cached_ui env now q m (s\<lparr>fetch_calls := Suc (fetch_calls s)\<rparr>) of
              (Inl e, s2) \<Rightarrow> s2
            | (Inr summary, s2) \<Rightarrow>
                if summary = [] then s2
                else s2\<lparr>history := Some ((q, summary) # (case history s2 of None \<Rightarrow> [] | Some h \<Rightarrow> h))\<rparr>)
       \<and> (outer_lookup s now (q, m) = None \<and> inner_cache s (q, m) = None
            \<and> news_api env (Suc (fetch_calls s)) q m = Inr articles2 \<longrightarrow>
          llm_calls (snd (run_pressed env now q m s)) = Suc (llm_calls s))"
proof -
  let ?s1 = "s\<lparr>fetch_calls := Suc (fetch_calls s)\<rparr>"
  obtain r s2 where call: "get_summary_cached_ui env now q m ?s1 = (r, s2)"
    by (cases "get_summary_cached_ui env now q m ?s1")
  have a: "snd (run_pressed env now q m s) =
           (case get_summary_cached_ui env now q m ?s1 of
              (Inl e, s2) \<Rightarrow> s2
            | (Inr summary, s2) \<Rightarrow>
                if summary = [] then s2
                else s2\<lparr>history := Some ((q, summary) # (case history s2 of None \<Rightarrow> [] | Some h \<Rightarrow> h))\<rparr>)"
    using assms call by (cases r) (simp_all add: run_pressed_def get_news_articles_def)
  have b: "snd (run_pressed (env\<lparr>estimate_tokens := est\<rparr>) now q m s) = snd (run_pressed env now q m s)"
    using assms call by (cases r) (simp_all add: run_pressed_def get_news_articles_def cached_ui_env Let_def)
  have c: "StWarning (ascii ''Large token estimate '' @ em_dash
                 @ ascii '' consider lowering max articles to reduce OpenAI usage/cost.'')
            \<in> set (fst (run_pressed env now q m s))
          \<longleftrightarrow> (\<exists>n. estimate_tokens env (concat_text articles) = Inr n \<and> n > 8000)"
    using assms call
    by (cases r) (simp_all add: run_pressed_def get_news_articles_def warning_notin_listing warning_in_notice Let_def)
  have d: "llm_calls (snd (run_pressed env now q m s)) = Suc (llm_calls s)"
    if miss: "outer_lookup s now (q, m) = None \<and> inner_cache s (q, m) = None
            \<and> news_api env (Suc (fetch_calls s)) q m = Inr articles2"
  proof -
    have m1: "outer_lookup ?s1 now (q, m) = None" "inner_cache ?s1 (q, m) = None"
      "news_api env (fetch_calls ?s1) q m = Inr articles2"
      using miss by (simp_all add: outer_lookup_def)
    show ?thesis
      unfolding a cached_ui_miss [OF m1]
      by (simp split: sum.split)
  qed
  from a b c d show ?thesis by blast
qed

theorem token_estimate_is_advisory_witness:
  "StWarning (ascii ''Large token estimate '' @ em_dash
       @ ascii '' consider lowering max articles to reduce OpenAI usage/cost.'')
     \<in> set (fst (run_pressed (sample_env (Inr [sample_article]) (Inr (ascii ''Summary'')) 9000) 0
                   (ascii ''Acme Corp'') 5 started))
   \<and> llm_calls (snd (run_pressed (sample_env (Inr [sample_article]) (Inr (ascii ''Summary'')) 9000) 0
                   (ascii ''Acme Corp'') 5 started)) = 1"
proof -
  let ?E = "sample_env (Inr [sample_article]) (Inr (ascii ''Summary'')) 9000"
  have h2: "news_api ?E (fetch_calls started) (ascii ''Acme Corp'') 5 = Inr [sample_article]"
    by (simp add: sample_env_def)
  have h3: "[sample_article] \<noteq> []" by simp
  have est: "\<exists>n. estimate_tokens ?E (concat_text [sample_article]) = Inr n \<and> n > 8000"
    by (simp add: sample_env_def)
  have miss: "outer_lookup started 0 (ascii ''Acme Corp'', 5) = None \<and> inner_cache started (ascii ''Acme Corp'', 5) = None
            \<and> news_api ?E (Suc (fetch_calls started)) (ascii ''Acme Corp'') 5 = Inr [sample_article]"
    by (simp add: outer_lookup_def started_def sample_env_def)
  have calls: "llm_calls started = 0" by (simp add: started_def)
  note t = token_estimate_is_advisory [OF nonblank_Acme h2 h3, of 0 "estimate_tokens ?E" "[sample_article]"]
  from t est have w: "StWarning (ascii ''Large token estimate '' @ em_dash
       @ ascii '' consider lowering max articles to reduce OpenAI usage/cost.'')
     \<in> set (fst (run_pressed ?E 0 (ascii ''Acme Corp'') 5 started))"
    by blast
  from t miss have "llm_calls (snd (run_pressed ?E 0 (ascii ''Acme Corp'') 5 started)) = Suc (llm_calls started)"
    by blast
  with w calls show ?thesis by simp
qed

text \<open>
  Claim C9, as amended. The outer tier has a lifetime of 24 hours, the inner tier none.
  For a key in neither tier whose computation succeeds, the module-level wrapper stores
  first (inner tier only), then the outer tier stores as the call returns (both tiers);
  from 24 hours after that moment the outer tier no longer serves the key and the inner
  tier still does (inner tier only); "Clear all caches", with
  \<open>st.cache_data.clear()\<close> not raising, leaves every key in neither tier; and a rerun
  in which that button was not clicked never removes an entry of the inner tier.
\<close>

theorem key_lifecycle:
  assumes "key_phase s now (q, m) = UNSET"
    and "get_summary_cached_module env q m s = (Inr summary, s1)"
    and "\<not> st_clear_raises env"
  shows "ttl = 24 * 60 * 60
       \<and> key_phase s1 now (q, m) = CACHED_INNER
       \<and> get_summary_cached_ui env now q m s =
           (Inr summary, s1\<lparr>outer_cache := (outer_cache s1)((q, m) \<mapsto> (summary, now))\<rparr>)
       \<and> (\<forall>t. t < now + ttl \<longrightarrow>
             key_phase (snd (get_summary_cached_ui env now q m s)) t (q, m) = CACHED_BOTH)
       \<and> (\<forall>t. now + ttl \<le> t \<longrightarrow>
             key_phase (snd (get_summary_cached_ui env now q m s)) t (q, m) = CACHED_INNER)
       \<and> (\<forall>s' t k. key_phase (snd (clear_all_caches env s')) t k = UNSET)
       \<and> (\<forall>env' t w s' k v. \<not> clear_all_clicked w \<and> inner_cache s' k = Some v \<longrightarrow>
             inner_cache (snd (app env' t w s')) k = Some v)"
proof -
  from assms(1) have miss: "outer_lookup s now (q, m) = None" "inner_cache s (q, m) = None"
    by (auto simp: key_phase_def split: option.splits)
  from cached_module_caches [OF assms(2)] have outer1: "outer_cache s1 = outer_cache s"
    by simp
  obtain r' s' where g: "get_summary env q m s = (r', s')"
    by (cases "get_summary env q m s")
  from assms(2) miss(2) g have inner1: "inner_cache s1 (q, m) = Some summary"
    by (cases r') (auto simp: get_summary_cached_module_def)
  have a: "key_phase s1 now (q, m) = CACHED_INNER"
    using miss(1) outer1 inner1 by (simp add: key_phase_def outer_lookup_def)
  have b: "get_summary_cached_ui env now q m s =
           (Inr summary, s1\<lparr>outer_cache := (outer_cache s1)((q, m) \<mapsto> (summary, now))\<rparr>)"
    using miss(1) assms(2) by (simp add: get_summary_cached_ui_def)
  have c: "\<forall>t. t < now + ttl \<longrightarrow>
             key_phase (snd (get_summary_cached_ui env now q m s)) t (q, m) = CACHED_BOTH"
    using inner1 by (simp add: b key_phase_def outer_lookup_def)
  have d: "\<forall>t. now + ttl \<le> t \<longrightarrow>
             key_phase (snd (get_summary_cached_ui env now q m s)) t (q, m) = CACHED_INNER"
    using inner1 by (simp add: b key_phase_def outer_lookup_def)
  have e: "\<forall>s' t k. key_phase (snd (clear_all_caches env s')) t k = UNSET"
    using assms(3) by (simp add: clear_all_state key_phase_def outer_lookup_def)
  have f: "\<forall>env' t w s' k v. \<not> clear_all_clicked w \<and> inner_cache s' k = Some v \<longrightarrow>
             inner_cache (snd (app env' t w s')) k = Some v"
    by (simp add: app_inner_kept)
  have "ttl = 24 * 60 * 60" by (simp add: ttl_def)
  with a b c d e f show ?thesis by blast
qed

theorem key_lifecycle_witness:
  "key_phase started 0 (ascii ''Acme Corp'', 5) = UNSET
   \<and> key_phase (snd (get_summary_cached_module (sample_env (Inr [sample_article]) (Inr (ascii ''Summary'')) 12)
                       (ascii ''Acme Corp'') 5 started)) 0 (ascii ''Acme Corp'', 5) = CACHED_INNER
   \<and> key_phase (snd (get_summary_cached_ui (sample_env (Inr [sample_article]) (Inr (ascii ''Summary'')) 12)
                       0 (ascii ''Acme Corp'') 5 started)) 86399 (ascii ''Acme Corp'', 5) = CACHED_BOTH
   \<and> key_phase (snd (get_summary_cached_ui (sample_env (Inr [sample_article]) (Inr (ascii ''Summary'')) 12)
                       0 (ascii ''Acme Corp'') 5 started)) 86400 (ascii ''Acme Corp'', 5) = CACHED_INNER
   \<and> key_phase (snd (clear_all_caches (sample_env (Inr [sample_article]) (Inr (ascii ''Summary'')) 12)
                       (sample_cached (ascii ''Acme Corp'')))) 86400 (ascii ''Acme Corp'', 5) = UNSET
   \<and> inner_cache (snd (app (sample_env (Inr [sample_article]) (Inr (ascii ''Summary'')) 12) 86400
                          \<lparr>max_articles = 5, date_from = None, date_to = None, cache_ttl_minutes = 60,
                            clear_all_clicked = False, query = ascii ''Acme Corp'', run_clicked = True,
                            clear_streamlit_clicked = True\<rparr>
                          (sample_cached (ascii ''Acme Corp'')))) (ascii ''Acme Corp'', 5)
       = Some (ascii ''Summary'')"
proof -
  let ?E = "sample_env (Inr [sample_article]) (Inr (ascii ''Summary'')) 12"
  let ?q = "ascii ''Acme Corp''"
  let ?w = "\<lparr>max_articles = 5, date_from = None, date_to = None, cache_ttl_minutes = 60,
             clear_all_clicked = False, query = ?q, run_clicked = True,
             clear_streamlit_clicked = True\<rparr>"
  have h1: "key_phase started 0 (?q, 5) = UNSET"
    by (simp add: key_phase_def outer_lookup_def started_def)
  have h3: "\<not> st_clear_raises ?E" by (simp add: sample_env_def)
  note t = key_lifecycle [OF h1 sample_first_inner h3]
  have inner: "inner_cache (snd (get_summary_cached_module ?E ?q 5 started)) = inner_cache
       (started\<lparr>fetch_calls := 1, llm_calls := 1, inner_cache := [(?q, 5) \<mapsto> ascii ''Summary'']\<rparr>)"
    by (simp add: sample_first_inner)
  from t have p1: "key_phase (snd (get_summary_cached_module ?E ?q 5 started)) 0 (?q, 5) = CACHED_INNER"
    by (simp add: sample_first_inner)
  have lt: "(86399::nat) < 0 + ttl" and ge: "0 + ttl \<le> (86400::nat)"
    by (simp_all add: ttl_def)
  from t lt have p2: "key_phase (snd (get_summary_cached_ui ?E 0 ?q 5 started)) 86399 (?q, 5) = CACHED_BOTH"
    by blast
  from t ge have p3: "key_phase (snd (get_summary_cached_ui ?E 0 ?q 5 started)) 86400 (?q, 5) = CACHED_INNER"
    by blast
  from t have p4: "key_phase (snd (clear_all_caches ?E (sample_cached ?q))) 86400 (?q, 5) = UNSET"
    by blast
  have nc: "\<not> clear_all_clicked ?w \<and> inner_cache (sample_cached ?q) (?q, 5) = Some (ascii ''Summary'')"
    by (simp add: sample_cached_def)
  from t nc have p5: "inner_cache (snd (app ?E 86400 ?w (sample_cached ?q))) (?q, 5) = Some (ascii ''Summary'')"
    by blast
  from h1 p1 p2 p3 p4 p5 show ?thesis by blast
qed

text \<open>
  After the computation the key is in the inner tier only, not in the outer tier only: the
  inner tier is written before the outer one.
\<close>

theorem inner_tier_written_first_counterexample:
  "key_phase (snd (get_summary_cached_module (sample_env (Inr [sample_article]) (Inr (ascii ''Summary'')) 12)
                       (ascii ''Acme Corp'') 5 started)) 0 (ascii ''Acme Corp'', 5) = CACHED_INNER
   \<and> key_phase (snd (get_summary_cached_module (sample_env (Inr [sample_article]) (Inr (ascii ''Summary'')) 12)
                       (ascii ''Acme Corp'') 5 started)) 0 (ascii ''Acme Corp'', 5) \<noteq> CACHED_OUTER
   \<and> key_phase (snd (get_summary_cached_ui (sample_env (Inr [sample_article]) (Inr (ascii ''Summary'')) 12)
                       0 (ascii ''Acme Corp'') 5 started)) 0 (ascii ''Acme Corp'', 5) = CACHED_BOTH"
  unfolding sample_first_inner sample_first_call
  by (simp add: sample_cached_def key_phase_def outer_lookup_def started_def ttl_def)

text \<open>
  Claim C10. The number input "Cache TTL (minutes)" of the sidebar has no effect: two reruns
  that differ only in its value show the same elements and end in the same state, and the
  lifetime of an outer-tier entry is the constant 24 hours.
\<close>

theorem cache_ttl_control_unused:
  "app env now (w\<lparr>cache_ttl_minutes := a\<rparr>) s = app env now (w\<lparr>cache_ttl_minutes := b\<rparr>) s
   \<and> ttl = 24 * 60 * 60"
  by (simp add: app_def ttl_def)

end
